theory Spec2Isabelle
  imports Main "HOL-Library.Char_ord" "HOL-Library.List_Lexorder" "HOL-Library.AList"
begin

section \<open>terraform-filter-vars: the data of \<open>main.go\<close>\<close>

text \<open>
  The program of \<open>main.go\<close> loads a Terraform module, reads the \<open>.tfvars\<close> files named on
  the command line, keeps for every variable the module declares the definition of the last
  file that defines it, and writes those definitions in the order of the variable names.

  Go strings are byte strings: \<open>string\<close> here, ordered byte by byte as \<open>sort.Strings\<close>
  orders them (\<open>Char_ord\<close> with \<open>List_Lexorder\<close>).
\<close>

subsection \<open>Diagnostics\<close>

text \<open>
  \<open>tfconfig.DiagSeverity\<close> is a rune with the two named values \<open>DiagError\<close> and
  \<open>DiagWarning\<close>. \<open>DiagZero\<close> is the zero value that \<open>appendHCLDiags\<close> leaves in
  \<open>severity\<close> when neither case of its switch applies.
\<close>

datatype DiagSeverity = DiagError | DiagWarning | DiagZero

record SourcePos =
  Filename :: string
  Line :: int

record Diagnostic =
  Severity :: DiagSeverity
  Summary :: string
  Detail :: string
  Pos :: "SourcePos option"

text \<open>
  The diagnostics of the HCL library: \<open>hcl.DiagSeverity\<close> is an integer with
  \<open>DiagInvalid\<close> (zero), \<open>DiagError\<close> and \<open>DiagWarning\<close>; of the subject range only the
  file name and the line of its start are read.
\<close>

datatype hclDiagSeverity = hclDiagInvalid | hclDiagError | hclDiagWarning

record hclRange =
  RangeFilename :: string
  StartLine :: int

record hclDiagnostic =
  hclSeverity :: hclDiagSeverity
  hclSummary :: string
  hclDetail :: string
  Subject :: "hclRange option"

text \<open>\<open>hcl.Diagnostics.HasErrors\<close>: some diagnostic has severity \<open>DiagError\<close>.\<close>

definition HasErrors :: "hclDiagnostic list \<Rightarrow> bool" where
  "HasErrors hclDiags = list_ex (\<lambda>d. hclSeverity d = hclDiagError) hclDiags"

subsection \<open>Attributes, tokens and the world outside the program\<close>

text \<open>
  A token is the bytes it was read from; \<open>hclwrite.Tokens\<close> is a sequence of tokens. An
  \<open>hclwrite.Attribute\<close> is opaque to the program: it has the name it is filed under and
  the tokens that \<open>BuildTokens(nil)\<close> returns for it.
\<close>

type_synonym Token = string
type_synonym Tokens = "Token list"

record Attribute =
  attrName :: string
  attrTokens :: Tokens

definition BuildTokens :: "Attribute \<Rightarrow> Tokens" where
  "BuildTokens attr = attrTokens attr"

text \<open>The body of a parsed file: its attributes in the order of appearance.\<close>

type_synonym Body = "Attribute list"

text \<open>
  Modelled from the spec: \<open>hclwrite.Body.Attributes\<close> belongs to the HCL library and is not
  under \<open>src/\<close>. It returns a Go map from attribute name to attribute. The spec (section 4.1)
  says that when a file defines the same attribute name twice, the second occurrence is the
  one exposed to the caller: the map is filled in the order of appearance, a later attribute
  replacing an earlier one of the same name (\<open>ret[name] = attr\<close>, here \<open>AList.update\<close>).
  The Go map is the association list of its entries, each key once.
\<close>

definition Attributes :: "Body \<Rightarrow> (string \<times> Attribute) list" where
  "Attributes body = foldl (\<lambda>ret attr. AList.update (attrName attr) attr ret) [] body"

text \<open>
  What the program asks of its surroundings, in the order it asks:
  \<open>tfconfig.LoadModule\<close> (the names of \<open>mod.Variables\<close> in the order the \<open>range\<close> loop
  meets them, and the diagnostics), \<open>ioutil.ReadFile\<close> (\<open>Inl\<close> the error's text),
  \<open>hclwrite.ParseConfig\<close> on the bytes and the file name, \<open>os.Create\<close>, and
  \<open>File.WriteTo\<close> on the destination and the body of the output file (\<open>Some\<close> the
  error's text when they fail). Which bytes \<open>File.WriteTo\<close> makes of the tokens is the
  library's matter and is not modelled.
\<close>

record World =
  LoadModule :: "string \<Rightarrow> string list \<times> Diagnostic list"
  ReadFile :: "string \<Rightarrow> string + string"
  ParseConfig :: "string \<Rightarrow> string \<Rightarrow> Body \<times> hclDiagnostic list"
  Create :: "string \<Rightarrow> string option"
  WriteTo :: "string \<Rightarrow> Tokens list \<Rightarrow> string option"

section \<open>The functions of \<open>main.go\<close>\<close>

subsection \<open>Printing\<close>

text \<open>\<open>%d\<close> of \<open>fmt\<close>: a decimal numeral, with a minus sign when negative.\<close>

fun showNat :: "nat \<Rightarrow> string" where
  "showNat n =
     (if n < 10 then [char_of (48 + n)]
      else showNat (n div 10) @ [char_of (48 + n mod 10)])"

declare showNat.simps [simp del]

definition showInt :: "int \<Rightarrow> string" where
  "showInt i = (if i < 0 then CHR ''-'' # showNat (nat (- i)) else showNat (nat i))"

text \<open>\<open>strings.HasSuffix\<close>.\<close>

definition HasSuffix :: "string \<Rightarrow> string \<Rightarrow> bool" where
  "HasSuffix s suffix =
     (length suffix \<le> length s \<and> drop (length s - length suffix) s = suffix)"

text \<open>
  One turn of the loop of \<open>showDiags\<close>: the text that \<open>fmt.Fprintf(os.Stderr, "%s%s; %s", ...)\<close>
  writes for one diagnostic.
\<close>

definition showDiag :: "Diagnostic \<Rightarrow> string" where
  "showDiag diag =
     (let prefixStr = (case Severity diag of
                         DiagError \<Rightarrow> ''Error: ''
                       | DiagWarning \<Rightarrow> ''Warning: ''
                       | DiagZero \<Rightarrow> '''');
          prefixStr = (case Pos diag of
                         None \<Rightarrow> prefixStr
                       | Some pos \<Rightarrow>
                           prefixStr @ '' ('' @ Filename pos @ '':'' @ showInt (Line pos) @ '') '')
      in prefixStr @ Summary diag @ ''; '' @ Detail diag)"

text \<open>\<open>showDiags\<close>: standard error after the loop, from standard error before it.\<close>

primrec showDiags :: "Diagnostic list \<Rightarrow> string \<Rightarrow> string" where
  "showDiags [] err = err"
| "showDiags (diag # diags) err = showDiags diags (err @ showDiag diag)"

text \<open>
  A process that has ended: its exit status, what it printed, the files it handed to
  \<open>ioutil.ReadFile\<close>, the file it created with \<open>os.Create\<close>, and the document it wrote
  with its destination (\<open>-\<close> is standard output). The document is kept as the token
  sequences appended to its body, one for each call of \<open>AppendUnstructuredTokens\<close>.
\<close>

record Exit =
  status :: int
  stdout :: string
  stderr :: string
  reads :: "string list"
  created :: "string option"
  written :: "(string \<times> Tokens list) option"

text \<open>
  \<open>exitWithDiags\<close> and \<open>exitIfErrors\<close>: the exit status and standard error when the
  process exits there, \<open>None\<close> when \<open>exitIfErrors\<close> returns to its caller.
\<close>

primrec exitWithDiags_loop :: "Diagnostic list \<Rightarrow> int" where
  "exitWithDiags_loop [] = 0"
| "exitWithDiags_loop (diag # diags) =
     (if Severity diag = DiagError then 1 else exitWithDiags_loop diags)"

definition exitWithDiags :: "Diagnostic list \<Rightarrow> int \<times> string" where
  "exitWithDiags diags = (exitWithDiags_loop diags, showDiags diags [])"

primrec exitIfErrors_loop :: "Diagnostic list \<Rightarrow> Diagnostic list \<Rightarrow> (int \<times> string) option" where
  "exitIfErrors_loop all [] = None"
| "exitIfErrors_loop all (diag # diags) =
     (if Severity diag = DiagError then Some (1, showDiags all [])
      else exitIfErrors_loop all diags)"

definition exitIfErrors :: "Diagnostic list \<Rightarrow> (int \<times> string) option" where
  "exitIfErrors diags = exitIfErrors_loop diags diags"

subsection \<open>\<open>appendHCLDiags\<close>\<close>

definition convertHCLDiag :: "hclDiagnostic \<Rightarrow> Diagnostic" where
  "convertHCLDiag hclDiag =
     (let severity = (case hclSeverity hclDiag of
                        hclDiagError \<Rightarrow> DiagError
                      | hclDiagWarning \<Rightarrow> DiagWarning
                      | hclDiagInvalid \<Rightarrow> DiagZero);
          pos = (case Subject hclDiag of
                   None \<Rightarrow> None
                 | Some subject \<Rightarrow>
                     Some \<lparr>Filename = RangeFilename subject, Line = StartLine subject\<rparr>)
      in \<lparr>Severity = severity, Summary = hclSummary hclDiag, Detail = hclDetail hclDiag,
          Pos = pos\<rparr>)"

primrec appendHCLDiags :: "Diagnostic list \<Rightarrow> hclDiagnostic list \<Rightarrow> Diagnostic list" where
  "appendHCLDiags diags [] = diags"
| "appendHCLDiags diags (hclDiag # hclDiags) =
     appendHCLDiags (diags @ [convertHCLDiag hclDiag]) hclDiags"

subsection \<open>The loop over the variable files\<close>

text \<open>
  The variables of \<open>main\<close> that the loop over \<open>varFilePaths\<close> changes: \<open>diags\<close>
  (\<open>stDiags\<close>) and the map \<open>attrs\<close> (\<open>stAttrs\<close>), with the paths handed to
  \<open>ioutil.ReadFile\<close> so far (\<open>stReads\<close>).
\<close>

record Merge =
  stDiags :: "Diagnostic list"
  stAttrs :: "string \<rightharpoonup> Attribute"
  stReads :: "string list"

definition jsonDiag :: "string \<Rightarrow> Diagnostic" where
  "jsonDiag varFilePath =
     \<lparr>Severity = DiagError, Summary = ''JSON tfvars not supported'',
      Detail = ''Can'' @ [CHR 0x27] @ ''t read '' @ varFilePath
               @ '': only native syntax .tfvars files are supported.'',
      Pos = None\<rparr>"

definition readDiag :: "string \<Rightarrow> string \<Rightarrow> Diagnostic" where
  "readDiag varFilePath err =
     \<lparr>Severity = DiagError, Summary = ''Failed to read input file'',
      Detail = ''Can'' @ [CHR 0x27] @ ''t read '' @ varFilePath @ '': '' @ err @ ''.'',
      Pos = None\<rparr>"

text \<open>
  The inner loop, over the entries of \<open>varFile.Body().Attributes()\<close>: an undeclared name is
  skipped, a declared one is stored over whatever \<open>attrs\<close> held for it.
\<close>

fun mergeAttrs :: "string set \<Rightarrow> (string \<times> Attribute) list \<Rightarrow> (string \<rightharpoonup> Attribute)
    \<Rightarrow> (string \<rightharpoonup> Attribute)" where
  "mergeAttrs wantedVarsSet [] attrs = attrs"
| "mergeAttrs wantedVarsSet ((name, attr) # rest) attrs =
     (if name \<notin> wantedVarsSet then mergeAttrs wantedVarsSet rest attrs
      else mergeAttrs wantedVarsSet rest (attrs(name \<mapsto> attr)))"

text \<open>One turn of the outer loop, with its three \<open>continue\<close>s.\<close>

definition varFileStep :: "World \<Rightarrow> string set \<Rightarrow> Merge \<Rightarrow> string \<Rightarrow> Merge" where
  "varFileStep w wantedVarsSet st varFilePath =
     (if HasSuffix varFilePath ''.json''
      then st\<lparr>stDiags := stDiags st @ [jsonDiag varFilePath]\<rparr>
      else
        let st = st\<lparr>stReads := stReads st @ [varFilePath]\<rparr> in
        case ReadFile w varFilePath of
          Inl err \<Rightarrow> st\<lparr>stDiags := stDiags st @ [readDiag varFilePath err]\<rparr>
        | Inr varFileSrc \<Rightarrow>
            (case ParseConfig w varFileSrc varFilePath of
               (varFile, hclDiags) \<Rightarrow>
                 let st = st\<lparr>stDiags := appendHCLDiags (stDiags st) hclDiags\<rparr> in
                 if HasErrors hclDiags then st
                 else st\<lparr>stAttrs := mergeAttrs wantedVarsSet (Attributes varFile) (stAttrs st)\<rparr>))"

definition varFilesLoop :: "World \<Rightarrow> string set \<Rightarrow> string list \<Rightarrow> Merge \<Rightarrow> Merge" where
  "varFilesLoop w wantedVarsSet varFilePaths st =
     foldl (varFileStep w wantedVarsSet) st varFilePaths"

subsection \<open>Building the output\<close>

text \<open>
  The loop over \<open>wantedVars\<close>: \<open>outBody\<close> is the list of the token sequences appended so
  far.
\<close>

fun emitLoop :: "string list \<Rightarrow> (string \<rightharpoonup> Attribute) \<Rightarrow> Tokens list \<Rightarrow> Tokens list" where
  "emitLoop [] attrs outBody = outBody"
| "emitLoop (name # wantedVars) attrs outBody =
     (case attrs name of
        None \<Rightarrow> emitLoop wantedVars attrs outBody
      | Some attr \<Rightarrow> emitLoop wantedVars attrs (outBody @ [BuildTokens attr]))"

subsection \<open>\<open>main\<close>\<close>

record Flags =
  versionP :: bool
  outP :: string

definition Version :: string where
  "Version = ''v0.0.0''"

definition Prerelease :: string where
  "Prerelease = ''dev''"

definition usageText :: string where
  "usageText = ''Usage: terraform-filter-vars <module-dir> [tfvars-files...]'' @ [CHR 0x0A, CHR 0x0A]
     @ ''Reads the given tfvars files and produces output in tfvars format containing only definitions for variables declared in the given module.''
     @ [CHR 0x0A, CHR 0x0A]"

definition createDiag :: "string \<Rightarrow> string \<Rightarrow> Diagnostic" where
  "createDiag out err =
     \<lparr>Severity = DiagError, Summary = ''Failed to open output file'',
      Detail = ''Can'' @ [CHR 0x27] @ ''t create '' @ out @ '': '' @ err @ ''.'',
      Pos = None\<rparr>"

definition writeDiag :: "string \<Rightarrow> string \<Rightarrow> Diagnostic" where
  "writeDiag out err =
     \<lparr>Severity = DiagError, Summary = ''Failed to write to output file'',
      Detail = ''Error writing to '' @ out @ '': '' @ err @ ''.'',
      Pos = None\<rparr>"

definition exited :: "int \<times> string \<Rightarrow> string list \<Rightarrow> string option
    \<Rightarrow> (string \<times> Tokens list) option \<Rightarrow> Exit" where
  "exited e rd cr wr =
     \<lparr>status = fst e, stdout = [], stderr = snd e, reads = rd, created = cr, written = wr\<rparr>"

text \<open>The part of \<open>main\<close> from \<open>outF.WriteTo\<close> on.\<close>

definition writeOut :: "World \<Rightarrow> string \<Rightarrow> Diagnostic list \<Rightarrow> string list \<Rightarrow> string option
    \<Rightarrow> Tokens list \<Rightarrow> Exit" where
  "writeOut w out diags rd cr outBody =
     (case WriteTo w out outBody of
        Some err \<Rightarrow> exited (exitWithDiags (diags @ [writeDiag out err])) rd cr None
      | None \<Rightarrow> exited (exitWithDiags diags) rd cr (Some (out, outBody)))"

definition main :: "World \<Rightarrow> Flags \<Rightarrow> string list \<Rightarrow> Exit" where
  "main w flags args =
     (if versionP flags then
        let versionStr = Version;
            versionStr = (if Prerelease \<noteq> [] then versionStr @ ''-'' @ Prerelease
                          else versionStr)
        in \<lparr>status = 0, stdout = ''terraform-filter-vars '' @ versionStr @ [CHR 0x0A],
            stderr = [], reads = [], created = None, written = None\<rparr>
      else if length args < 1 then
        \<lparr>status = 1, stdout = [], stderr = usageText, reads = [], created = None,
         written = None\<rparr>
      else
        let modDir = hd args in
        case LoadModule w modDir of
          (modVariables, moreDiags) \<Rightarrow>
            let diags0 = [] @ moreDiags in
            (case exitIfErrors diags0 of
               Some e \<Rightarrow> exited e [] None None
             | None \<Rightarrow>
                 let wantedVars = sort modVariables;
                     wantedVarsSet = set modVariables;
                     varFilePaths = tl args;
                     st = varFilesLoop w wantedVarsSet varFilePaths
                            \<lparr>stDiags = diags0, stAttrs = Map.empty, stReads = []\<rparr>
                 in (case exitIfErrors (stDiags st) of
                       Some e \<Rightarrow> exited e (stReads st) None None
                     | None \<Rightarrow>
                         let outBody = emitLoop wantedVars (stAttrs st) [] in
                         if outP flags = ''-''
                         then writeOut w (outP flags) (stDiags st) (stReads st) None outBody
                         else
                           (case Create w (outP flags) of
                              Some err \<Rightarrow>
                                exited (exitWithDiags (stDiags st @ [createDiag (outP flags) err]))
                                  (stReads st) None None
                            | None \<Rightarrow>
                                writeOut w (outP flags) (stDiags st) (stReads st)
                                  (Some (outP flags)) outBody))))"

section \<open>Vocabulary for the properties\<close>

text \<open>
  What one variable file brings to the loop, read off \<open>varFileStep\<close>: the diagnostics it adds,
  and the map it offers to the merge (\<open>None\<close> when the file is skipped by one of the three
  \<open>continue\<close>s).
\<close>

definition fileDiags :: "World \<Rightarrow> string \<Rightarrow> Diagnostic list" where
  "fileDiags w varFilePath =
     (if HasSuffix varFilePath ''.json'' then [jsonDiag varFilePath]
      else case ReadFile w varFilePath of
             Inl err \<Rightarrow> [readDiag varFilePath err]
           | Inr varFileSrc \<Rightarrow>
               map convertHCLDiag (snd (ParseConfig w varFileSrc varFilePath)))"

definition fileAttrs :: "World \<Rightarrow> string \<Rightarrow> (string \<times> Attribute) list option" where
  "fileAttrs w varFilePath =
     (if HasSuffix varFilePath ''.json'' then None
      else case ReadFile w varFilePath of
             Inl err \<Rightarrow> None
           | Inr varFileSrc \<Rightarrow>
               (case ParseConfig w varFileSrc varFilePath of
                  (varFile, hclDiags) \<Rightarrow>
                    if HasErrors hclDiags then None else Some (Attributes varFile)))"

text \<open>The definition of the variable \<open>v\<close> that a file offers to the merge, if any.\<close>

definition fileDef :: "World \<Rightarrow> string \<Rightarrow> string \<Rightarrow> Attribute option" where
  "fileDef w varFilePath v =
     (case fileAttrs w varFilePath of None \<Rightarrow> None | Some m \<Rightarrow> map_of m v)"

text \<open>
  The state of the loop over the variable files when \<open>main\<close> leaves it, and the attributes
  whose tokens the loop over \<open>wantedVars\<close> then pastes into the output, in that order.
\<close>

definition merged :: "World \<Rightarrow> string \<Rightarrow> string list \<Rightarrow> Merge" where
  "merged w modDir varFilePaths =
     varFilesLoop w (set (fst (LoadModule w modDir))) varFilePaths
       \<lparr>stDiags = snd (LoadModule w modDir), stAttrs = Map.empty, stReads = []\<rparr>"

definition pasted :: "World \<Rightarrow> string \<Rightarrow> string list \<Rightarrow> Attribute list" where
  "pasted w modDir varFilePaths =
     List.map_filter (stAttrs (merged w modDir varFilePaths)) (sort (fst (LoadModule w modDir)))"

section \<open>The example of the README\<close>

text \<open>
  The module of the \<open>example\<close> directory declares \<open>foo\<close>, \<open>bar\<close> and \<open>baz\<close>;
  \<open>a.tfvars\<close> defines \<open>foo\<close> and \<open>bar\<close>; \<open>b.tfvars\<close> defines \<open>bar\<close>, \<open>baz\<close> and
  \<open>boop\<close>. Here the parser also warns about \<open>b.tfvars\<close>, \<open>dup.tfvars\<close> names \<open>foo\<close>
  twice, and any other file cannot be read.
\<close>

definition attrOf :: "string \<Rightarrow> string \<Rightarrow> Attribute" where
  "attrOf name expr = \<lparr>attrName = name, attrTokens = [name, ''='', expr, [CHR 0x0A]]\<rparr>"

definition exWarning :: hclDiagnostic where
  "exWarning = \<lparr>hclSeverity = hclDiagWarning, hclSummary = ''Odd'', hclDetail = ''Look.'',
                Subject = Some \<lparr>RangeFilename = ''b.tfvars'', StartLine = 3\<rparr>\<rparr>"

definition exWorld :: World where
  "exWorld =
     \<lparr>LoadModule = (\<lambda>modDir. if modDir = ''example'' then ([''foo'', ''bar'', ''baz''], [])
                     else ([], [\<lparr>Severity = DiagError, Summary = ''Failed to read module directory'',
                                 Detail = ''Not found.'', Pos = None\<rparr>])),
      ReadFile = (\<lambda>path. if path = ''a.tfvars'' then Inr ''A''
                   else if path = ''b.tfvars'' then Inr ''B''
                   else if path = ''dup.tfvars'' then Inr ''D''
                   else Inl ''no such file''),
      ParseConfig = (\<lambda>src filename.
                   if src = ''A'' then ([attrOf ''foo'' ''1'', attrOf ''bar'' ''2''], [])
                   else if src = ''B''
                     then ([attrOf ''bar'' ''3'', attrOf ''baz'' ''4'', attrOf ''boop'' ''5''],
                           [exWarning])
                   else ([attrOf ''foo'' ''6'', attrOf ''foo'' ''7''], [])),
      Create = (\<lambda>path. if path = ''out.tfvars'' then None else Some ''permission denied''),
      WriteTo = (\<lambda>out outBody. None)\<rparr>"

definition exFlags :: Flags where
  "exFlags = \<lparr>versionP = False, outP = ''-''\<rparr>"

section \<open>The loops in closed form\<close>

lemma showDiags_eq: "showDiags ds err = err @ concat (map showDiag ds)"
  by (induction ds arbitrary: err) simp_all

lemma exitIfErrors_loop_eq:
  "exitIfErrors_loop all ds =
     (if \<exists>d\<in>set ds. Severity d = DiagError then Some (1, showDiags all []) else None)"
  by (induction ds) simp_all

lemma exitIfErrors_eq:
  "exitIfErrors ds =
     (if \<exists>d\<in>set ds. Severity d = DiagError then Some (1, showDiags ds []) else None)"
  by (simp add: exitIfErrors_def exitIfErrors_loop_eq)

lemma exitWithDiags_loop_eq:
  "exitWithDiags_loop ds = (if \<exists>d\<in>set ds. Severity d = DiagError then 1 else 0)"
  by (induction ds) simp_all

lemma exitWithDiags_eq:
  "exitWithDiags ds =
     (if \<exists>d\<in>set ds. Severity d = DiagError then 1 else 0, showDiags ds [])"
  by (simp add: exitWithDiags_def exitWithDiags_loop_eq)

lemma appendHCLDiags_eq: "appendHCLDiags ds hs = ds @ map convertHCLDiag hs"
  by (induction hs arbitrary: ds) simp_all

lemma convertHCLDiag_Severity:
  "Severity (convertHCLDiag h) = DiagError \<longleftrightarrow> hclSeverity h = hclDiagError"
  by (cases "hclSeverity h") (simp_all add: convertHCLDiag_def Let_def)

lemma HasErrors_iff:
  "HasErrors hs \<longleftrightarrow> (\<exists>d\<in>set (map convertHCLDiag hs). Severity d = DiagError)"
  by (simp add: HasErrors_def list_ex_iff convertHCLDiag_Severity)

lemma Attributes_snoc:
  "Attributes (body @ [a]) = AList.update (attrName a) a (Attributes body)"
  by (simp add: Attributes_def)

lemma map_of_Attributes_snoc:
  "map_of (Attributes (body @ [a])) = (map_of (Attributes body))(attrName a \<mapsto> a)"
  by (simp add: Attributes_snoc update_conv')

lemma distinct_Attributes: "distinct (map fst (Attributes body))"
  by (induction body rule: rev_induct) (simp_all add: Attributes_def distinct_update)

lemma Attributes_name: "map_of (Attributes body) v = Some a \<Longrightarrow> attrName a = v"
proof (induction body arbitrary: a rule: rev_induct)
  case Nil
  then show ?case by (simp add: Attributes_def)
next
  case (snoc x xs)
  then show ?case
    by (cases "attrName x = v") (simp_all add: map_of_Attributes_snoc)
qed

lemma Attributes_last:
  "\<forall>z\<in>set zs. attrName z \<noteq> attrName a \<Longrightarrow>
     map_of (Attributes (xs @ a # zs)) (attrName a) = Some a"
proof (induction zs rule: rev_induct)
  case Nil
  show ?case by (simp add: map_of_Attributes_snoc)
next
  case (snoc z zs)
  have "xs @ a # zs @ [z] = (xs @ a # zs) @ [z]" by simp
  with snoc show ?case
    by (simp only: map_of_Attributes_snoc) auto
qed

lemma mergeAttrs_eq:
  "distinct (map fst m) \<Longrightarrow>
     mergeAttrs W m attrs v =
       (if v \<in> W then (case map_of m v of Some a \<Rightarrow> Some a | None \<Rightarrow> attrs v) else attrs v)"
proof (induction m arbitrary: attrs)
  case Nil
  show ?case by simp
next
  case (Cons e m)
  obtain name attr where e: "e = (name, attr)" by (cases e)
  from Cons.prems e have d: "distinct (map fst m)" and n: "name \<notin> fst ` set m" by auto
  from n have none: "map_of m name = None" by (simp add: map_of_eq_None_iff)
  show ?case using Cons.IH [OF d] none by (auto simp: e split: option.splits)
qed

lemma varFileStep_eq:
  "varFileStep w W st p =
     st\<lparr>stDiags := stDiags st @ fileDiags w p,
        stAttrs := (case fileAttrs w p of None \<Rightarrow> stAttrs st
                    | Some m \<Rightarrow> mergeAttrs W m (stAttrs st)),
        stReads := stReads st @ (if HasSuffix p ''.json'' then [] else [p])\<rparr>"
  by (simp add: varFileStep_def fileDiags_def fileAttrs_def Let_def appendHCLDiags_eq
      split: sum.splits prod.splits)

lemma fileAttrs_distinct: "fileAttrs w p = Some m \<Longrightarrow> distinct (map fst m)"
  by (auto simp: fileAttrs_def distinct_Attributes split: if_splits sum.splits prod.splits)

lemma fileDef_name: "fileDef w p v = Some a \<Longrightarrow> attrName a = v"
  by (auto simp: fileDef_def fileAttrs_def split: option.splits if_splits sum.splits prod.splits
      dest: Attributes_name)

lemma step_attrs:
  "stAttrs (varFileStep w W st p) v =
     (if v \<in> W then (case fileDef w p v of Some a \<Rightarrow> Some a | None \<Rightarrow> stAttrs st v)
      else stAttrs st v)"
proof (cases "fileAttrs w p")
  case None
  then show ?thesis by (simp add: varFileStep_eq fileDef_def)
next
  case (Some m)
  then show ?thesis
    by (simp add: varFileStep_eq fileDef_def mergeAttrs_eq [OF fileAttrs_distinct [OF Some]])
qed

lemma loop_snoc:
  "varFilesLoop w W (ps @ [p]) st = varFileStep w W (varFilesLoop w W ps st) p"
  by (simp add: varFilesLoop_def)

lemma loop_Nil: "varFilesLoop w W [] st = st"
  by (simp add: varFilesLoop_def)

lemma loop_diags:
  "stDiags (varFilesLoop w W ps st) = stDiags st @ concat (map (fileDiags w) ps)"
  by (induction ps rule: rev_induct) (simp_all add: loop_Nil loop_snoc varFileStep_eq)

lemma loop_reads:
  "stReads (varFilesLoop w W ps st) = stReads st @ filter (\<lambda>p. \<not> HasSuffix p ''.json'') ps"
  by (induction ps rule: rev_induct) (simp_all add: loop_Nil loop_snoc varFileStep_eq)

lemma loop_attrs_undeclared: "v \<notin> W \<Longrightarrow> stAttrs (varFilesLoop w W ps st) v = stAttrs st v"
  by (induction ps rule: rev_induct) (simp_all add: loop_Nil loop_snoc step_attrs)

lemma loop_attrs_none:
  "\<forall>p\<in>set ps. fileDef w p v = None \<Longrightarrow> stAttrs (varFilesLoop w W ps st) v = stAttrs st v"
  by (induction ps rule: rev_induct) (simp_all add: loop_Nil loop_snoc step_attrs)

lemma loop_append:
  "varFilesLoop w W (ps @ qs) st = varFilesLoop w W qs (varFilesLoop w W ps st)"
  by (simp add: varFilesLoop_def)

lemma loop_Cons:
  "varFilesLoop w W (p # ps) st = varFilesLoop w W ps (varFileStep w W st p)"
  by (simp add: varFilesLoop_def)

lemma loop_attrs_last:
  assumes "v \<in> W" and "fileDef w B v = Some b" and "\<forall>p\<in>set after. fileDef w p v = None"
  shows "stAttrs (varFilesLoop w W (before @ B # after) st) v = Some b"
  using assms by (simp add: loop_append loop_Cons loop_attrs_none step_attrs)


lemma loop_attrs_name:
  "\<forall>n a. stAttrs st n = Some a \<longrightarrow> attrName a = n \<and> n \<in> W \<Longrightarrow>
     stAttrs (varFilesLoop w W ps st) n = Some a \<Longrightarrow> attrName a = n \<and> n \<in> W"
proof (induction ps arbitrary: a rule: rev_induct)
  case Nil
  then show ?case by (simp add: loop_Nil)
next
  case (snoc p ps)
  then show ?case
    by (auto simp: loop_snoc step_attrs split: if_splits option.splits dest: fileDef_name)
qed

lemma emitLoop_eq:
  "emitLoop names attrs out = out @ map BuildTokens (List.map_filter attrs names)"
  by (induction names arbitrary: out) (simp_all split: option.splits)

section \<open>\<open>main\<close> in closed form\<close>

lemma merged_diags:
  "stDiags (merged w modDir ps) = snd (LoadModule w modDir) @ concat (map (fileDiags w) ps)"
  by (simp add: merged_def loop_diags)

lemma merged_reads:
  "stReads (merged w modDir ps) = filter (\<lambda>p. \<not> HasSuffix p ''.json'') ps"
  by (simp add: merged_def loop_reads)

lemma main_run:
  assumes "\<not> versionP flags"
  shows "main w flags (modDir # paths) =
     (let md = snd (LoadModule w modDir); st = merged w modDir paths;
          outBody = map BuildTokens (pasted w modDir paths)
      in if \<exists>d\<in>set md. Severity d = DiagError
           then exited (1, showDiags md []) [] None None
         else if \<exists>d\<in>set (stDiags st). Severity d = DiagError
           then exited (1, showDiags (stDiags st) []) (stReads st) None None
         else if outP flags = ''-''
           then writeOut w (outP flags) (stDiags st) (stReads st) None outBody
         else (case Create w (outP flags) of
                 Some err \<Rightarrow>
                   exited (exitWithDiags (stDiags st @ [createDiag (outP flags) err]))
                     (stReads st) None None
               | None \<Rightarrow>
                   writeOut w (outP flags) (stDiags st) (stReads st) (Some (outP flags))
                     outBody))"
proof (cases "LoadModule w modDir")
  case (Pair vars md)
  with assms show ?thesis
    by (simp add: main_def exitIfErrors_eq Let_def merged_def pasted_def emitLoop_eq
        del: One_nat_def)
qed

lemma main_written:
  assumes "written (main w flags (modDir # paths)) = Some (dest, outBody)"
  shows "outBody = map BuildTokens (pasted w modDir paths)
    \<and> dest = outP flags
    \<and> (\<forall>d\<in>set (stDiags (merged w modDir paths)). Severity d \<noteq> DiagError)"
proof -
  have nv: "\<not> versionP flags"
    using assms by (auto simp: main_def)
  show ?thesis
    using assms unfolding main_run [OF nv] Let_def
    by (auto simp: exited_def writeOut_def split: if_splits option.splits)
qed

lemma pasted_names:
  "map attrName (pasted w modDir paths) =
     filter (\<lambda>n. stAttrs (merged w modDir paths) n \<noteq> None) (sort (fst (LoadModule w modDir)))"
proof -
  have inv: "stAttrs (merged w modDir paths) n = Some a \<Longrightarrow> attrName a = n" for n a
    unfolding merged_def by (rule loop_attrs_name [THEN conjunct1]) simp_all
  have "map (\<lambda>x. attrName (the (stAttrs (merged w modDir paths) x)))
          (filter (\<lambda>n. stAttrs (merged w modDir paths) n \<noteq> None) xs) =
        filter (\<lambda>n. stAttrs (merged w modDir paths) n \<noteq> None) xs" for xs
    by (induction xs) (auto dest: inv)
  then show ?thesis
    by (simp add: pasted_def map_filter_def o_def)
qed

lemma pasted_sorted: "sorted (map attrName (pasted w modDir paths))"
  by (simp add: pasted_names sorted_wrt_filter)

lemma merged_attr_name:
  "stAttrs (merged w modDir paths) n = Some a \<Longrightarrow>
     attrName a = n \<and> n \<in> set (fst (LoadModule w modDir))"
  unfolding merged_def by (rule loop_attrs_name) simp_all

lemma pasted_name_set:
  "attrName ` set (pasted w modDir paths) =
     {n \<in> set (fst (LoadModule w modDir)). stAttrs (merged w modDir paths) n \<noteq> None}"
proof -
  have "attrName ` set (pasted w modDir paths) = set (map attrName (pasted w modDir paths))"
    by simp
  also have "\<dots> = {n \<in> set (fst (LoadModule w modDir)).
                     stAttrs (merged w modDir paths) n \<noteq> None}"
    unfolding pasted_names by auto
  finally show ?thesis .
qed

lemma filter_name_map_filter:
  "\<forall>n a. f n = Some a \<longrightarrow> attrName a = n \<Longrightarrow>
     filter (\<lambda>x. attrName x = v) (List.map_filter f xs) =
       List.map_filter f (filter (\<lambda>n. n = v) xs)"
  by (induction xs) (auto split: option.splits)

lemma filter_eq_distinct:
  "distinct xs \<Longrightarrow> filter (\<lambda>n. n = v) xs = (if v \<in> set xs then [v] else [])"
  by (induction xs) auto

lemma pasted_named:
  assumes "distinct (fst (LoadModule w modDir))"
  shows "filter (\<lambda>x. attrName x = v) (pasted w modDir paths) =
     (if v \<in> set (fst (LoadModule w modDir))
      then (case stAttrs (merged w modDir paths) v of None \<Rightarrow> [] | Some a \<Rightarrow> [a])
      else [])"
proof -
  have inv: "\<forall>n a. stAttrs (merged w modDir paths) n = Some a \<longrightarrow> attrName a = n"
    by (auto dest: merged_attr_name)
  from assms have d: "distinct (sort (fst (LoadModule w modDir)))" by simp
  show ?thesis
    unfolding pasted_def filter_name_map_filter [OF inv] filter_eq_distinct [OF d]
    by (simp split: option.splits)
qed

lemma loop_diags_any_set:
  "stDiags (varFilesLoop w W ps st) = stDiags (varFilesLoop w W' ps st)"
  by (simp add: loop_diags)

lemma main_clean_run:
  assumes nv: "\<not> versionP flags"
    and clean: "\<forall>d\<in>set (snd (LoadModule w modDir) @ concat (map (fileDiags w) varFilePaths)).
            Severity d \<noteq> DiagError"
    and cr: "outP flags = ''-'' \<or> Create w (outP flags) = None"
    and wr: "WriteTo w (outP flags) (map BuildTokens (pasted w modDir varFilePaths)) = None"
  shows "status (main w flags (modDir # varFilePaths)) = 0
       \<and> written (main w flags (modDir # varFilePaths)) =
           Some (outP flags, map BuildTokens (pasted w modDir varFilePaths))
       \<and> stderr (main w flags (modDir # varFilePaths)) =
           showDiags (snd (LoadModule w modDir) @ concat (map (fileDiags w) varFilePaths)) []"
proof -
  from clean have c1: "\<not> (\<exists>d\<in>set (snd (LoadModule w modDir)). Severity d = DiagError)"
    by auto
  from clean have c2: "\<not> (\<exists>d\<in>set (stDiags (merged w modDir varFilePaths)). Severity d = DiagError)"
    unfolding merged_diags by blast
  show ?thesis
    unfolding main_run [OF nv] Let_def
    using c1 c2 cr wr
    by (auto simp: writeOut_def exited_def exitWithDiags_eq merged_diags)
qed

lemma main_reads:
  "set (reads (main w flags args)) \<subseteq> {p \<in> set (tl args). \<not> HasSuffix p ''.json''}"
proof (cases "versionP flags")
  case True
  then show ?thesis by (simp add: main_def)
next
  case nv: False
  show ?thesis
  proof (cases args)
    case Nil
    with nv show ?thesis by (simp add: main_def)
  next
    case (Cons modDir paths)
    show ?thesis
      unfolding Cons main_run [OF nv] Let_def
      by (auto simp: writeOut_def exited_def merged_reads split: option.splits)
  qed
qed

lemma fileDiags_error_no_attrs:
  "\<exists>d\<in>set (fileDiags w p). Severity d = DiagError \<Longrightarrow> fileAttrs w p = None"
  by (auto simp: fileDiags_def fileAttrs_def HasErrors_iff split: if_splits sum.splits prod.splits)

section \<open>The example, evaluated\<close>

lemma ex_vars: "fst (LoadModule exWorld ''example'') = [''foo'', ''bar'', ''baz'']"
  by (simp add: exWorld_def)

lemma ex_diags: "snd (LoadModule exWorld ''example'') = []"
  by (simp add: exWorld_def)

lemma ex_flags: "versionP exFlags = False" "outP exFlags = ''-''"
  by (simp_all add: exFlags_def)

lemma ex_WriteTo: "WriteTo exWorld out outBody = None"
  by (simp add: exWorld_def)

lemma ex_Create: "outP exFlags = ''-'' \<or> Create exWorld (outP exFlags) = None"
  by (simp add: ex_flags)

lemma ex_fileDiags_a: "fileDiags exWorld ''a.tfvars'' = []"
  by (simp add: fileDiags_def HasSuffix_def exWorld_def)

lemma ex_fileDiags_b: "fileDiags exWorld ''b.tfvars'' = [convertHCLDiag exWarning]"
  by (simp add: fileDiags_def HasSuffix_def exWorld_def)

lemma ex_fileDiags_json: "fileDiags exWorld ''a.json'' = [jsonDiag ''a.json'']"
  by (simp add: fileDiags_def HasSuffix_def)

lemma ex_fileAttrs_b:
  "Attributes [attrOf ''bar'' ''3'', attrOf ''baz'' ''4'', attrOf ''boop'' ''5''] =
     [(''bar'', attrOf ''bar'' ''3''), (''baz'', attrOf ''baz'' ''4''),
      (''boop'', attrOf ''boop'' ''5'')]"
  by (simp add: Attributes_def attrOf_def)

lemma ex_fileDef_a_bar: "fileDef exWorld ''a.tfvars'' ''bar'' = Some (attrOf ''bar'' ''2'')"
  by code_simp

lemma ex_fileDef_a_baz: "fileDef exWorld ''a.tfvars'' ''baz'' = None"
  by code_simp

lemma ex_fileDef_b_bar: "fileDef exWorld ''b.tfvars'' ''bar'' = Some (attrOf ''bar'' ''3'')"
  by code_simp

lemma ex_fileDef_b_boop: "fileDef exWorld ''b.tfvars'' ''boop'' = Some (attrOf ''boop'' ''5'')"
  by code_simp

lemma ex_a_pasted:
  "pasted exWorld ''example'' [''a.tfvars''] = [attrOf ''bar'' ''2'', attrOf ''foo'' ''1'']"
  by code_simp

lemma ex_ab_pasted:
  "pasted exWorld ''example'' [''a.tfvars'', ''b.tfvars''] =
     [attrOf ''bar'' ''3'', attrOf ''baz'' ''4'', attrOf ''foo'' ''1'']"
  by code_simp

lemma ex_ba_pasted:
  "pasted exWorld ''example'' [''b.tfvars'', ''a.tfvars''] =
     [attrOf ''bar'' ''2'', attrOf ''baz'' ''4'', attrOf ''foo'' ''1'']"
  by code_simp

lemma ex_ab_written:
  "written (main exWorld exFlags [''example'', ''a.tfvars'', ''b.tfvars'']) =
     Some (''-'', [[''bar'', ''='', ''3'', [CHR 0x0A]], [''baz'', ''='', ''4'', [CHR 0x0A]],
                   [''foo'', ''='', ''1'', [CHR 0x0A]]])"
  by code_simp

lemma ex_ba_written:
  "written (main exWorld exFlags [''example'', ''b.tfvars'', ''a.tfvars'']) =
     Some (''-'', [[''bar'', ''='', ''2'', [CHR 0x0A]], [''baz'', ''='', ''4'', [CHR 0x0A]],
                   [''foo'', ''='', ''1'', [CHR 0x0A]]])"
  by code_simp

lemma ex_dup_written:
  "written (main exWorld exFlags [''example'', ''dup.tfvars'']) =
     Some (''-'', [[''foo'', ''='', ''7'', [CHR 0x0A]]])"
  by code_simp

lemma ex_json_reads:
  "reads (main exWorld exFlags [''example'', ''a.json'', ''b.tfvars'']) = [''b.tfvars'']"
  by code_simp

lemma ex_fileDiags_b_json: "fileDiags exWorld ''b.json'' = [jsonDiag ''b.json'']"
  by (simp add: fileDiags_def HasSuffix_def)

lemma ex_fileDef_a_foo: "fileDef exWorld ''a.tfvars'' ''foo'' = Some (attrOf ''foo'' ''1'')"
  by code_simp

lemma ex_json_a_reads:
  "reads (main exWorld exFlags [''example'', ''a.json'', ''a.tfvars'']) = [''a.tfvars'']"
  by code_simp

lemma ex_json_a_merged:
  "stAttrs (merged exWorld ''example'' [''a.json'', ''a.tfvars'']) ''foo'' =
     Some (attrOf ''foo'' ''1'')"
  by code_simp

lemma ex_json_json_stderr:
  "stderr (main exWorld exFlags [''example'', ''a.json'', ''b.json'']) =
     showDiags [jsonDiag ''a.json'', jsonDiag ''b.json''] []"
  by code_simp

lemma ex_json_json_differs:
  "showDiags [jsonDiag ''a.json'', jsonDiag ''b.json''] [] \<noteq> showDiags [jsonDiag ''a.json''] []"
  by (simp add: showDiags_eq showDiag_def jsonDiag_def)

section \<open>The properties\<close>

text \<open>
  Throughout, a run is \<open>main w flags (modDir # varFilePaths)\<close>; it has produced the output
  \<open>outBody\<close> when \<open>written\<close> of its result is \<open>Some (dest, outBody)\<close>, and \<open>outBody\<close>
  is then the token sequences of the attributes \<open>pasted w modDir varFilePaths\<close>, one each.
  The names of \<open>mod.Variables\<close> are the keys of a Go map, so the list the \<open>range\<close> loop
  meets is \<open>distinct\<close>.
\<close>

text \<open>
  C1 (last file wins). For a variable \<open>v\<close> that the module declares and that two files \<open>A\<close>
  and \<open>B\<close> define, \<open>B\<close> after \<open>A\<close> in the arguments and no file after \<open>B\<close> defining \<open>v\<close>:
  the output holds exactly one attribute named \<open>v\<close>, it is the attribute \<open>b\<close> of \<open>B\<close> with
  its tokens as they are, and the attribute \<open>a\<close> of \<open>A\<close> is not in the output.
\<close>

theorem last_file_wins:
  assumes "written (main w flags (modDir # varFilePaths)) = Some (dest, outBody)"
    and "varFilePaths = before @ A # between @ B # after"
    and "v \<in> set (fst (LoadModule w modDir))"
    and "distinct (fst (LoadModule w modDir))"
    and "fileDef w A v = Some a"
    and "fileDef w B v = Some b"
    and "\<forall>p\<in>set after. fileDef w p v = None"
  shows "outBody = map BuildTokens (pasted w modDir varFilePaths)
    \<and> filter (\<lambda>x. attrName x = v) (pasted w modDir varFilePaths) = [b]
    \<and> (a \<noteq> b \<longrightarrow> a \<notin> set (pasted w modDir varFilePaths))"
proof -
  have "varFilePaths = (before @ A # between) @ B # after"
    using assms(2) by simp
  then have m: "stAttrs (merged w modDir varFilePaths) v = Some b"
    unfolding merged_def using assms(3,6,7) by (simp only: loop_attrs_last)
  have one: "filter (\<lambda>x. attrName x = v) (pasted w modDir varFilePaths) = [b]"
    using assms(3) m by (simp add: pasted_named [OF assms(4)])
  have "a = b" if "a \<in> set (pasted w modDir varFilePaths)"
  proof -
    from that fileDef_name [OF assms(5)]
    have "a \<in> set (filter (\<lambda>x. attrName x = v) (pasted w modDir varFilePaths))" by simp
    then show ?thesis unfolding one by simp
  qed
  with one main_written [OF assms(1)] show ?thesis by blast
qed

theorem last_file_wins_witness:
  "written (main exWorld exFlags [''example'', ''a.tfvars'', ''b.tfvars'']) =
     Some (''-'', [[''bar'', ''='', ''3'', [CHR 0x0A]], [''baz'', ''='', ''4'', [CHR 0x0A]],
                   [''foo'', ''='', ''1'', [CHR 0x0A]]])
   \<and> ''bar'' \<in> set (fst (LoadModule exWorld ''example''))
   \<and> distinct (fst (LoadModule exWorld ''example''))
   \<and> fileDef exWorld ''a.tfvars'' ''bar'' = Some (attrOf ''bar'' ''2'')
   \<and> fileDef exWorld ''b.tfvars'' ''bar'' = Some (attrOf ''bar'' ''3'')
   \<and> filter (\<lambda>x. attrName x = ''bar'') (pasted exWorld ''example'' [''a.tfvars'', ''b.tfvars''])
       = [attrOf ''bar'' ''3'']
   \<and> attrOf ''bar'' ''2'' \<notin> set (pasted exWorld ''example'' [''a.tfvars'', ''b.tfvars''])"
  using last_file_wins [OF ex_ab_written, of "[]" "''a.tfvars''" "[]" "''b.tfvars''" "[]"
      "''bar''" "attrOf ''bar'' ''2''" "attrOf ''bar'' ''3''"]
  by (simp add: ex_ab_written ex_vars ex_fileDef_a_bar ex_fileDef_b_bar) (simp add: attrOf_def)

text \<open>
  C2 (filtering). In every run the attributes pasted into the output have names the module
  declares. Dropping the others adds no diagnostic: the diagnostics of the loop are those of
  the same loop run with every name wanted (\<open>UNIV\<close>), namely the diagnostics of the module
  followed by those of each file.
\<close>

theorem undeclared_filtered_silently:
  "(\<forall>dest outBody. written (main w flags (modDir # varFilePaths)) = Some (dest, outBody) \<longrightarrow>
      outBody = map BuildTokens (pasted w modDir varFilePaths))
   \<and> (\<forall>x\<in>set (pasted w modDir varFilePaths). attrName x \<in> set (fst (LoadModule w modDir)))
   \<and> stDiags (merged w modDir varFilePaths) =
       stDiags (varFilesLoop w UNIV varFilePaths
         \<lparr>stDiags = snd (LoadModule w modDir), stAttrs = Map.empty, stReads = []\<rparr>)
   \<and> stDiags (merged w modDir varFilePaths) =
       snd (LoadModule w modDir) @ concat (map (fileDiags w) varFilePaths)"
proof -
  have "attrName x \<in> set (fst (LoadModule w modDir))"
    if "x \<in> set (pasted w modDir varFilePaths)" for x
  proof -
    from that have "attrName x \<in> attrName ` set (pasted w modDir varFilePaths)" by simp
    then show ?thesis unfolding pasted_name_set by simp
  qed
  moreover have "stDiags (merged w modDir varFilePaths) =
       stDiags (varFilesLoop w UNIV varFilePaths
         \<lparr>stDiags = snd (LoadModule w modDir), stAttrs = Map.empty, stReads = []\<rparr>)"
    unfolding merged_def by (rule loop_diags_any_set)
  ultimately show ?thesis
    using main_written [of w flags modDir varFilePaths] merged_diags [of w modDir varFilePaths]
    by blast
qed

theorem undeclared_filtered_silently_witness:
  "written (main exWorld exFlags [''example'', ''a.tfvars'', ''b.tfvars'']) =
     Some (''-'', [[''bar'', ''='', ''3'', [CHR 0x0A]], [''baz'', ''='', ''4'', [CHR 0x0A]],
                   [''foo'', ''='', ''1'', [CHR 0x0A]]])
   \<and> fileDef exWorld ''b.tfvars'' ''boop'' = Some (attrOf ''boop'' ''5'')
   \<and> ''boop'' \<notin> set (fst (LoadModule exWorld ''example''))
   \<and> attrOf ''boop'' ''5'' \<notin> set (pasted exWorld ''example'' [''a.tfvars'', ''b.tfvars''])
   \<and> stDiags (merged exWorld ''example'' [''a.tfvars'', ''b.tfvars'']) =
       [convertHCLDiag exWarning]"
  using undeclared_filtered_silently [of exWorld exFlags "''example''" "[''a.tfvars'', ''b.tfvars'']"]
  by (simp add: ex_ab_written ex_fileDef_b_boop ex_vars ex_diags ex_fileDiags_a ex_fileDiags_b
      ex_ab_pasted attrOf_def loop_diags)

text \<open>
  C3 (order of the output). In every run that produces output, the attributes of the output
  are in ascending order of their names, whatever the order of the file arguments and of the
  attributes in the files; strictly ascending when the declared names are distinct.
\<close>

theorem output_sorted_by_name:
  assumes "written (main w flags (modDir # varFilePaths)) = Some (dest, outBody)"
  shows "outBody = map BuildTokens (pasted w modDir varFilePaths)
    \<and> sorted (map attrName (pasted w modDir varFilePaths))
    \<and> (distinct (fst (LoadModule w modDir)) \<longrightarrow>
         sorted_wrt (<) (map attrName (pasted w modDir varFilePaths)))"
  using main_written [OF assms]
  by (simp add: pasted_sorted strict_sorted_iff) (simp add: pasted_names)

theorem output_sorted_by_name_witness:
  "written (main exWorld exFlags [''example'', ''b.tfvars'', ''a.tfvars'']) =
     Some (''-'', [[''bar'', ''='', ''2'', [CHR 0x0A]], [''baz'', ''='', ''4'', [CHR 0x0A]],
                   [''foo'', ''='', ''1'', [CHR 0x0A]]])
   \<and> distinct (fst (LoadModule exWorld ''example''))
   \<and> map attrName (pasted exWorld ''example'' [''b.tfvars'', ''a.tfvars'']) =
       [''bar'', ''baz'', ''foo'']
   \<and> sorted_wrt (<) (map attrName (pasted exWorld ''example'' [''b.tfvars'', ''a.tfvars'']))"
  using output_sorted_by_name [OF ex_ba_written]
  by (simp add: ex_ba_written ex_vars) (simp add: ex_ba_pasted attrOf_def)

text \<open>
  C4 (abort on errors), as the code has it. An \<open>Error\<close> diagnostic of the module discovery
  ends the run at once: the module's diagnostics are shown, the status is 1 and no variable
  file is read. An \<open>Error\<close> diagnostic of a variable file does not end the run at once. The
  loop goes on to its end: its diagnostics are those of the module followed by those of every
  file, every file whose path does not end in \<open>.json\<close> is handed to \<open>ioutil.ReadFile\<close>, a
  file with an \<open>Error\<close> diagnostic offers no attributes, and a declared variable has in
  \<open>attrs\<close> the definition of the last file that offers one, whatever the errors of the other
  files. The run ends at the checkpoint after the last file, showing all the diagnostics of
  the loop, with status 1. In both cases nothing is created and nothing is written.
\<close>

theorem errors_abort_at_checkpoints:
  assumes "\<not> versionP flags"
    and "\<exists>d\<in>set (snd (LoadModule w modDir) @ concat (map (fileDiags w) varFilePaths)).
           Severity d = DiagError"
  shows "status (main w flags (modDir # varFilePaths)) = 1
    \<and> created (main w flags (modDir # varFilePaths)) = None
    \<and> written (main w flags (modDir # varFilePaths)) = None
    \<and> (if \<exists>d\<in>set (snd (LoadModule w modDir)). Severity d = DiagError
       then stderr (main w flags (modDir # varFilePaths)) =
              showDiags (snd (LoadModule w modDir)) []
            \<and> reads (main w flags (modDir # varFilePaths)) = []
       else stderr (main w flags (modDir # varFilePaths)) =
              showDiags (stDiags (merged w modDir varFilePaths)) []
            \<and> reads (main w flags (modDir # varFilePaths)) =
              stReads (merged w modDir varFilePaths))
    \<and> stDiags (merged w modDir varFilePaths) =
        snd (LoadModule w modDir) @ concat (map (fileDiags w) varFilePaths)
    \<and> stReads (merged w modDir varFilePaths) =
        filter (\<lambda>p. \<not> HasSuffix p ''.json'') varFilePaths
    \<and> (\<forall>p. (\<exists>d\<in>set (fileDiags w p). Severity d = DiagError) \<longrightarrow> fileAttrs w p = None)
    \<and> (\<forall>before p after v a.
          varFilePaths = before @ p # after
          \<and> v \<in> set (fst (LoadModule w modDir))
          \<and> fileDef w p v = Some a
          \<and> (\<forall>q\<in>set after. fileDef w q v = None)
          \<longrightarrow> stAttrs (merged w modDir varFilePaths) v = Some a)"
proof -
  have run: "status (main w flags (modDir # varFilePaths)) = 1
    \<and> created (main w flags (modDir # varFilePaths)) = None
    \<and> written (main w flags (modDir # varFilePaths)) = None
    \<and> (if \<exists>d\<in>set (snd (LoadModule w modDir)). Severity d = DiagError
       then stderr (main w flags (modDir # varFilePaths)) =
              showDiags (snd (LoadModule w modDir)) []
            \<and> reads (main w flags (modDir # varFilePaths)) = []
       else stderr (main w flags (modDir # varFilePaths)) =
              showDiags (stDiags (merged w modDir varFilePaths)) []
            \<and> reads (main w flags (modDir # varFilePaths)) =
              stReads (merged w modDir varFilePaths))"
  proof (cases "\<exists>d\<in>set (snd (LoadModule w modDir)). Severity d = DiagError")
    case True
    then show ?thesis
      unfolding main_run [OF assms(1)] Let_def by (simp add: exited_def)
  next
    case False
    with assms(2) have "\<exists>d\<in>set (stDiags (merged w modDir varFilePaths)). Severity d = DiagError"
      unfolding merged_diags by simp
    with False show ?thesis
      unfolding main_run [OF assms(1)] Let_def
      by (simp add: exited_def)
  qed
  have skip: "fileAttrs w p = None" if "\<exists>d\<in>set (fileDiags w p). Severity d = DiagError" for p
    using that by (rule fileDiags_error_no_attrs)
  have last: "stAttrs (merged w modDir varFilePaths) v = Some a"
    if "varFilePaths = before @ p # after
          \<and> v \<in> set (fst (LoadModule w modDir))
          \<and> fileDef w p v = Some a
          \<and> (\<forall>q\<in>set after. fileDef w q v = None)" for before p after v a
  proof -
    from that have eq: "varFilePaths = before @ p # after"
      and v: "v \<in> set (fst (LoadModule w modDir))"
      and d: "fileDef w p v = Some a"
      and n: "\<forall>q\<in>set after. fileDef w q v = None"
      by simp_all
    show ?thesis
      unfolding merged_def eq by (rule loop_attrs_last [OF v d n])
  qed
  from run skip last merged_diags [of w modDir varFilePaths]
    merged_reads [of w modDir varFilePaths]
  show ?thesis by blast
qed

theorem errors_abort_at_checkpoints_witness:
  "\<not> versionP exFlags
   \<and> snd (LoadModule exWorld ''example'') = []
   \<and> fileDiags exWorld ''a.json'' = [jsonDiag ''a.json'']
   \<and> Severity (jsonDiag ''a.json'') = DiagError
   \<and> fileDiags exWorld ''a.tfvars'' = []
   \<and> status (main exWorld exFlags [''example'', ''a.json'', ''a.tfvars'']) = 1
   \<and> created (main exWorld exFlags [''example'', ''a.json'', ''a.tfvars'']) = None
   \<and> written (main exWorld exFlags [''example'', ''a.json'', ''a.tfvars'']) = None
   \<and> stderr (main exWorld exFlags [''example'', ''a.json'', ''a.tfvars'']) =
       showDiags [jsonDiag ''a.json''] []
   \<and> reads (main exWorld exFlags [''example'', ''a.json'', ''a.tfvars'']) = [''a.tfvars'']
   \<and> fileAttrs exWorld ''a.json'' = None
   \<and> fileDef exWorld ''a.tfvars'' ''foo'' = Some (attrOf ''foo'' ''1'')
   \<and> stAttrs (merged exWorld ''example'' [''a.json'', ''a.tfvars'']) ''foo'' =
       Some (attrOf ''foo'' ''1'')"
proof -
  have h1: "\<not> versionP exFlags" by (simp add: ex_flags)
  have h3: "Severity (jsonDiag ''a.json'') = DiagError" by (simp add: jsonDiag_def)
  have h2: "\<exists>d\<in>set (snd (LoadModule exWorld ''example'')
              @ concat (map (fileDiags exWorld) [''a.json'', ''a.tfvars''])).
         Severity d = DiagError"
    by (simp add: ex_diags ex_fileDiags_json ex_fileDiags_a h3)
  note t = errors_abort_at_checkpoints [OF h1 h2]
  from t have run: "status (main exWorld exFlags [''example'', ''a.json'', ''a.tfvars'']) = 1
    \<and> created (main exWorld exFlags [''example'', ''a.json'', ''a.tfvars'']) = None
    \<and> written (main exWorld exFlags [''example'', ''a.json'', ''a.tfvars'']) = None
    \<and> stderr (main exWorld exFlags [''example'', ''a.json'', ''a.tfvars'']) =
        showDiags [jsonDiag ''a.json''] []
    \<and> reads (main exWorld exFlags [''example'', ''a.json'', ''a.tfvars'']) = [''a.tfvars'']"
    by (simp add: ex_diags ex_fileDiags_json ex_fileDiags_a HasSuffix_def)
  from t have "(\<exists>d\<in>set (fileDiags exWorld ''a.json''). Severity d = DiagError)
      \<longrightarrow> fileAttrs exWorld ''a.json'' = None"
    by blast
  then have skip: "fileAttrs exWorld ''a.json'' = None"
    by (simp add: ex_fileDiags_json h3)
  from t have "[''a.json'', ''a.tfvars''] = [''a.json''] @ ''a.tfvars'' # []
          \<and> ''foo'' \<in> set (fst (LoadModule exWorld ''example''))
          \<and> fileDef exWorld ''a.tfvars'' ''foo'' = Some (attrOf ''foo'' ''1'')
          \<and> (\<forall>q\<in>set []. fileDef exWorld q ''foo'' = None)
          \<longrightarrow> stAttrs (merged exWorld ''example'' [''a.json'', ''a.tfvars'']) ''foo'' =
                Some (attrOf ''foo'' ''1'')"
    by blast
  then have m: "stAttrs (merged exWorld ''example'' [''a.json'', ''a.tfvars'']) ''foo'' =
                Some (attrOf ''foo'' ''1'')"
    by (simp add: ex_vars ex_fileDef_a_foo)
  from h1 h3 run skip m show ?thesis
    by (simp add: ex_diags ex_fileDiags_json ex_fileDiags_a ex_fileDef_a_foo)
qed

text \<open>
  The run does not end at the first error of a file. In the example, after the error about
  \<open>a.json\<close> the program reads \<open>a.tfvars\<close> and merges its \<open>foo\<close>; and with \<open>a.json\<close> and
  \<open>b.json\<close> it shows the error about \<open>b.json\<close> too, which it met after the first.
\<close>

theorem abort_not_immediate_counterexample:
  "fileDiags exWorld ''a.json'' = [jsonDiag ''a.json'']
   \<and> Severity (jsonDiag ''a.json'') = DiagError
   \<and> reads (main exWorld exFlags [''example'', ''a.json'', ''a.tfvars'']) = [''a.tfvars'']
   \<and> stAttrs (merged exWorld ''example'' [''a.json'', ''a.tfvars'']) ''foo'' =
       Some (attrOf ''foo'' ''1'')
   \<and> stderr (main exWorld exFlags [''example'', ''a.json'', ''b.json'']) =
       showDiags [jsonDiag ''a.json'', jsonDiag ''b.json''] []
   \<and> stderr (main exWorld exFlags [''example'', ''a.json'', ''b.json'']) \<noteq>
       showDiags [jsonDiag ''a.json''] []"
proof -
  have "Severity (jsonDiag ''a.json'') = DiagError" by (simp add: jsonDiag_def)
  then show ?thesis
    unfolding ex_json_json_stderr
    by (intro conjI ex_fileDiags_json ex_json_a_reads ex_json_a_merged ex_json_json_differs refl)
qed

text \<open>
  C5 (JSON files). A variable file whose path ends in \<open>.json\<close> only adds to the
  diagnostics: one diagnostic of severity \<open>Error\<close>, \<open>JSON tfvars not supported\<close>, whose detail
  contains the path. The file offers no attributes to the merge, and no run of \<open>main\<close>
  hands the path to \<open>ioutil.ReadFile\<close>.
\<close>

theorem json_files_rejected_unread:
  assumes "HasSuffix varFilePath ''.json''"
  shows "varFileStep w wantedVarsSet st varFilePath =
           st\<lparr>stDiags := stDiags st @ [jsonDiag varFilePath]\<rparr>
    \<and> Severity (jsonDiag varFilePath) = DiagError
    \<and> Summary (jsonDiag varFilePath) = ''JSON tfvars not supported''
    \<and> (\<exists>pre post. Detail (jsonDiag varFilePath) = pre @ varFilePath @ post)
    \<and> fileAttrs w varFilePath = None
    \<and> varFilePath \<notin> set (reads (main w flags args))"
proof -
  have "Detail (jsonDiag varFilePath) =
      (''Can'' @ [CHR 0x27] @ ''t read '') @ varFilePath
        @ '': only native syntax .tfvars files are supported.''"
    by (simp add: jsonDiag_def)
  then have "\<exists>pre post. Detail (jsonDiag varFilePath) = pre @ varFilePath @ post"
    by blast
  moreover have "varFilePath \<notin> set (reads (main w flags args))"
    using main_reads [of w flags args] assms by auto
  ultimately show ?thesis
    using assms by (simp add: varFileStep_def fileAttrs_def jsonDiag_def)
qed

theorem json_files_rejected_unread_witness:
  "HasSuffix ''a.json'' ''.json''
   \<and> fileDiags exWorld ''a.json'' = [jsonDiag ''a.json'']
   \<and> Severity (jsonDiag ''a.json'') = DiagError
   \<and> fileAttrs exWorld ''a.json'' = None
   \<and> ''a.json'' \<notin> set (reads (main exWorld exFlags [''example'', ''a.json'', ''b.tfvars'']))"
proof -
  have h: "HasSuffix ''a.json'' ''.json''" by (simp add: HasSuffix_def)
  from json_files_rejected_unread [OF h, of exWorld _ _ exFlags "[''example'', ''a.json'', ''b.tfvars'']"]
  show ?thesis using h by (simp add: fileDiags_def)
qed

text \<open>
  C6 (an attribute defined twice in one file). For a file parsed with no diagnostics whose
  body names an attribute twice, \<open>first\<close> and later \<open>second\<close>, with no attribute of that
  name after \<open>second\<close>: \<open>second\<close> is the entry of \<open>Attributes\<close>, the definition the file
  offers to the merge, and the entry of \<open>attrs\<close> after the file when the name is declared.
  This rests on \<open>Attributes\<close> as the spec describes it.
\<close>

theorem second_occurrence_exposed:
  assumes "\<not> HasSuffix varFilePath ''.json''"
    and "ReadFile w varFilePath = Inr varFileSrc"
    and "ParseConfig w varFileSrc varFilePath = (varFile, [])"
    and "varFile = xs @ first # ys @ second # zs"
    and "attrName first = attrName second"
    and "\<forall>z\<in>set zs. attrName z \<noteq> attrName second"
  shows "map_of (Attributes varFile) (attrName second) = Some second
    \<and> fileDef w varFilePath (attrName second) = Some second
    \<and> (attrName second \<in> wantedVarsSet \<longrightarrow>
         stAttrs (varFileStep w wantedVarsSet st varFilePath) (attrName second) = Some second)"
proof -
  have "varFile = (xs @ first # ys) @ second # zs" using assms(4) by simp
  then have m: "map_of (Attributes varFile) (attrName second) = Some second"
    using assms(6) by (simp only: Attributes_last)
  have fa: "fileAttrs w varFilePath = Some (Attributes varFile)"
    using assms(1-3) by (simp add: fileAttrs_def HasErrors_def)
  with m have fd: "fileDef w varFilePath (attrName second) = Some second"
    by (simp add: fileDef_def)
  from m fd show ?thesis by (simp add: step_attrs)
qed

theorem second_occurrence_exposed_witness:
  "\<not> HasSuffix ''dup.tfvars'' ''.json''
   \<and> ReadFile exWorld ''dup.tfvars'' = Inr ''D''
   \<and> ParseConfig exWorld ''D'' ''dup.tfvars'' = ([attrOf ''foo'' ''6'', attrOf ''foo'' ''7''], [])
   \<and> attrName (attrOf ''foo'' ''6'') = attrName (attrOf ''foo'' ''7'')
   \<and> fileDef exWorld ''dup.tfvars'' ''foo'' = Some (attrOf ''foo'' ''7'')
   \<and> written (main exWorld exFlags [''example'', ''dup.tfvars'']) =
       Some (''-'', [BuildTokens (attrOf ''foo'' ''7'')])"
proof -
  have h1: "\<not> HasSuffix ''dup.tfvars'' ''.json''" by (simp add: HasSuffix_def)
  have h2: "ReadFile exWorld ''dup.tfvars'' = Inr ''D''" by (simp add: exWorld_def)
  have h3: "ParseConfig exWorld ''D'' ''dup.tfvars'' =
      ([attrOf ''foo'' ''6'', attrOf ''foo'' ''7''], [])" by (simp add: exWorld_def)
  have h4: "[attrOf ''foo'' ''6'', attrOf ''foo'' ''7''] =
      [] @ attrOf ''foo'' ''6'' # [] @ attrOf ''foo'' ''7'' # []" by simp
  have h5: "attrName (attrOf ''foo'' ''6'') = attrName (attrOf ''foo'' ''7'')"
    by (simp add: attrOf_def)
  have h6: "\<forall>z\<in>set []. attrName z \<noteq> attrName (attrOf ''foo'' ''7'')" by simp
  from second_occurrence_exposed [OF h1 h2 h3 h4 h5 h6]
  have "fileDef exWorld ''dup.tfvars'' ''foo'' = Some (attrOf ''foo'' ''7'')"
    by (simp add: attrOf_def)
  with h1 h2 h3 h5 show ?thesis
    by (simp add: ex_dup_written attrOf_def BuildTokens_def)
qed

text \<open>
  C7 (declared but never defined). For a declared variable \<open>v\<close> that no file defines, no
  attribute named \<open>v\<close> is pasted into the output. Nothing is reported about it: when the
  module and the files give no \<open>Error\<close> diagnostic and the output can be written, the run
  ends with status 0, writes the output, and standard error shows the diagnostics of the
  module and of the files and nothing else.
\<close>

theorem undefined_declared_omitted:
  assumes "\<not> versionP flags"
    and "v \<in> set (fst (LoadModule w modDir))"
    and "\<forall>p\<in>set varFilePaths. fileDef w p v = None"
  shows "v \<notin> attrName ` set (pasted w modDir varFilePaths)
    \<and> (\<forall>dest outBody. written (main w flags (modDir # varFilePaths)) = Some (dest, outBody) \<longrightarrow>
          outBody = map BuildTokens (pasted w modDir varFilePaths))
    \<and> ((\<forall>d\<in>set (snd (LoadModule w modDir) @ concat (map (fileDiags w) varFilePaths)).
            Severity d \<noteq> DiagError)
        \<and> (outP flags = ''-'' \<or> Create w (outP flags) = None)
        \<and> WriteTo w (outP flags) (map BuildTokens (pasted w modDir varFilePaths)) = None
        \<longrightarrow> status (main w flags (modDir # varFilePaths)) = 0
          \<and> written (main w flags (modDir # varFilePaths)) =
              Some (outP flags, map BuildTokens (pasted w modDir varFilePaths))
          \<and> stderr (main w flags (modDir # varFilePaths)) =
              showDiags (snd (LoadModule w modDir) @ concat (map (fileDiags w) varFilePaths)) [])"
proof -
  have "stAttrs (merged w modDir varFilePaths) v = None"
    unfolding merged_def using assms(3) by (simp add: loop_attrs_none)
  then have absent: "v \<notin> attrName ` set (pasted w modDir varFilePaths)"
    unfolding pasted_name_set by simp
  from absent main_clean_run [OF assms(1), of w modDir varFilePaths]
    main_written [of w flags modDir varFilePaths]
  show ?thesis by blast
qed

theorem undefined_declared_omitted_witness:
  "\<not> versionP exFlags
   \<and> ''baz'' \<in> set (fst (LoadModule exWorld ''example''))
   \<and> fileDef exWorld ''a.tfvars'' ''baz'' = None
   \<and> ''baz'' \<notin> attrName ` set (pasted exWorld ''example'' [''a.tfvars''])
   \<and> status (main exWorld exFlags [''example'', ''a.tfvars'']) = 0
   \<and> written (main exWorld exFlags [''example'', ''a.tfvars'']) =
       Some (''-'', [[''bar'', ''='', ''2'', [CHR 0x0A]], [''foo'', ''='', ''1'', [CHR 0x0A]]])
   \<and> stderr (main exWorld exFlags [''example'', ''a.tfvars'']) = []"
proof -
  have h1: "\<not> versionP exFlags" by (simp add: ex_flags)
  have h2: "''baz'' \<in> set (fst (LoadModule exWorld ''example''))" by (simp add: ex_vars)
  have h3: "\<forall>p\<in>set [''a.tfvars'']. fileDef exWorld p ''baz'' = None"
    by (simp add: ex_fileDef_a_baz)
  have clean: "\<forall>d\<in>set (snd (LoadModule exWorld ''example'')
                  @ concat (map (fileDiags exWorld) [''a.tfvars''])). Severity d \<noteq> DiagError"
    by (simp add: ex_diags ex_fileDiags_a)
  have out: "outP exFlags = ''-'' \<or> Create exWorld (outP exFlags) = None"
    by (simp add: ex_flags)
  note t = undefined_declared_omitted [OF h1 h2 h3]
  from t have absent: "''baz'' \<notin> attrName ` set (pasted exWorld ''example'' [''a.tfvars''])"
    by (rule conjunct1)
  from t clean out ex_WriteTo
  have run: "status (main exWorld exFlags [''example'', ''a.tfvars'']) = 0
          \<and> written (main exWorld exFlags [''example'', ''a.tfvars'']) =
              Some (outP exFlags, map BuildTokens (pasted exWorld ''example'' [''a.tfvars'']))
          \<and> stderr (main exWorld exFlags [''example'', ''a.tfvars'']) =
              showDiags (snd (LoadModule exWorld ''example'')
                @ concat (map (fileDiags exWorld) [''a.tfvars''])) []"
    by blast
  from h1 h2 ex_fileDef_a_baz absent run show ?thesis
    by (simp add: ex_flags ex_diags ex_fileDiags_a ex_a_pasted attrOf_def BuildTokens_def)
qed

text \<open>
  C8 (one line for each diagnostic). The format of \<open>showDiags\<close>, \<open>"%s%s; %s"\<close>, has no
  line terminator. With two \<open>.json\<close> arguments the two diagnostics are shown, the status
  is 1, and standard error holds them run together, without any newline.
\<close>

theorem diagnostics_run_together:
  "status (main exWorld exFlags [''example'', ''a.json'', ''b.json'']) = 1
   \<and> stderr (main exWorld exFlags [''example'', ''a.json'', ''b.json'']) =
       ''Error: JSON tfvars not supported; Can'' @ [CHR 0x27]
       @ ''t read a.json: only native syntax .tfvars files are supported.''
       @ ''Error: JSON tfvars not supported; Can'' @ [CHR 0x27]
       @ ''t read b.json: only native syntax .tfvars files are supported.''
   \<and> CHR 0x0A \<notin> set (stderr (main exWorld exFlags [''example'', ''a.json'', ''b.json'']))"
  by code_simp

text \<open>
  C9 (warnings only). For a file that is read and whose parse gives only \<open>Warning\<close>
  diagnostics: its attributes are merged (a declared name it defines is then in \<open>attrs\<close>),
  the diagnostics it adds are warnings, diagnostics that are all warnings make neither
  \<open>exitIfErrors\<close> nor \<open>exitWithDiags\<close> end the process with a failure, and a run whose
  diagnostics are all warnings and whose output can be written ends with status 0 and writes
  the output.
\<close>

theorem warnings_do_not_block:
  assumes "\<not> HasSuffix varFilePath ''.json''"
    and "ReadFile w varFilePath = Inr varFileSrc"
    and "ParseConfig w varFileSrc varFilePath = (varFile, hclDiags)"
    and "\<forall>d\<in>set hclDiags. hclSeverity d = hclDiagWarning"
  shows "stAttrs (varFileStep w wantedVarsSet st varFilePath) =
           mergeAttrs wantedVarsSet (Attributes varFile) (stAttrs st)
    \<and> (\<forall>v a. v \<in> wantedVarsSet \<and> map_of (Attributes varFile) v = Some a \<longrightarrow>
          stAttrs (varFileStep w wantedVarsSet st varFilePath) v = Some a)
    \<and> (\<forall>d\<in>set (fileDiags w varFilePath). Severity d = DiagWarning)
    \<and> (\<forall>diags. (\<forall>d\<in>set diags. Severity d = DiagWarning) \<longrightarrow>
          exitIfErrors diags = None \<and> fst (exitWithDiags diags) = 0)
    \<and> (\<forall>flags modDir varFilePaths.
          \<not> versionP flags
          \<and> (\<forall>d\<in>set (snd (LoadModule w modDir) @ concat (map (fileDiags w) varFilePaths)).
                Severity d = DiagWarning)
          \<and> (outP flags = ''-'' \<or> Create w (outP flags) = None)
          \<and> WriteTo w (outP flags) (map BuildTokens (pasted w modDir varFilePaths)) = None
          \<longrightarrow> status (main w flags (modDir # varFilePaths)) = 0
            \<and> written (main w flags (modDir # varFilePaths)) =
                Some (outP flags, map BuildTokens (pasted w modDir varFilePaths)))"
proof -
  from assms(4) have ne: "\<not> HasErrors hclDiags"
    by (auto simp: HasErrors_def list_ex_iff)
  from assms(1-3) ne have fa: "fileAttrs w varFilePath = Some (Attributes varFile)"
    by (simp add: fileAttrs_def)
  then have s1: "stAttrs (varFileStep w wantedVarsSet st varFilePath) =
           mergeAttrs wantedVarsSet (Attributes varFile) (stAttrs st)"
    by (simp add: varFileStep_eq)
  have s2: "stAttrs (varFileStep w wantedVarsSet st varFilePath) v = Some a"
    if "v \<in> wantedVarsSet \<and> map_of (Attributes varFile) v = Some a" for v a
    using that fa by (simp add: step_attrs fileDef_def)
  have s3: "\<forall>d\<in>set (fileDiags w varFilePath). Severity d = DiagWarning"
    using assms by (auto simp: fileDiags_def convertHCLDiag_def)
  have s4: "exitIfErrors diags = None \<and> fst (exitWithDiags diags) = 0"
    if "\<forall>d\<in>set diags. Severity d = DiagWarning" for diags
    using that by (auto simp: exitIfErrors_eq exitWithDiags_eq)
  have s5: "status (main w flags (modDir # varFilePaths)) = 0
            \<and> written (main w flags (modDir # varFilePaths)) =
                Some (outP flags, map BuildTokens (pasted w modDir varFilePaths))"
    if h: "\<not> versionP flags
          \<and> (\<forall>d\<in>set (snd (LoadModule w modDir) @ concat (map (fileDiags w) varFilePaths)).
                Severity d = DiagWarning)
          \<and> (outP flags = ''-'' \<or> Create w (outP flags) = None)
          \<and> WriteTo w (outP flags) (map BuildTokens (pasted w modDir varFilePaths)) = None"
    for flags modDir varFilePaths
  proof -
    from h have clean: "\<forall>d\<in>set (snd (LoadModule w modDir) @ concat (map (fileDiags w) varFilePaths)).
                Severity d \<noteq> DiagError"
      by (metis DiagSeverity.distinct(1))
    from h main_clean_run [OF _ clean] show ?thesis by blast
  qed
  show ?thesis
    apply (intro conjI allI impI)
    subgoal by (rule s1)
    subgoal by (rule s2)
    subgoal using s3 by blast
    subgoal using s4 by blast
    subgoal using s4 by blast
    subgoal using s5 by blast
    subgoal using s5 by blast
    done
qed

theorem warnings_do_not_block_witness:
  "\<not> HasSuffix ''b.tfvars'' ''.json''
   \<and> ReadFile exWorld ''b.tfvars'' = Inr ''B''
   \<and> snd (ParseConfig exWorld ''B'' ''b.tfvars'') = [exWarning]
   \<and> hclSeverity exWarning = hclDiagWarning
   \<and> stAttrs (varFileStep exWorld {''foo'', ''bar'', ''baz''}
        \<lparr>stDiags = [], stAttrs = Map.empty, stReads = []\<rparr> ''b.tfvars'') ''baz''
       = Some (attrOf ''baz'' ''4'')
   \<and> fileDiags exWorld ''b.tfvars'' = [convertHCLDiag exWarning]
   \<and> Severity (convertHCLDiag exWarning) = DiagWarning
   \<and> status (main exWorld exFlags [''example'', ''a.tfvars'', ''b.tfvars'']) = 0
   \<and> written (main exWorld exFlags [''example'', ''a.tfvars'', ''b.tfvars'']) =
       Some (''-'', map BuildTokens [attrOf ''bar'' ''3'', attrOf ''baz'' ''4'', attrOf ''foo'' ''1''])"
proof -
  have h1: "\<not> HasSuffix ''b.tfvars'' ''.json''" by (simp add: HasSuffix_def)
  have h2: "ReadFile exWorld ''b.tfvars'' = Inr ''B''" by (simp add: exWorld_def)
  have h3: "ParseConfig exWorld ''B'' ''b.tfvars'' =
      ([attrOf ''bar'' ''3'', attrOf ''baz'' ''4'', attrOf ''boop'' ''5''], [exWarning])"
    by (simp add: exWorld_def)
  have h4: "\<forall>d\<in>set [exWarning]. hclSeverity d = hclDiagWarning"
    by (simp add: exWarning_def)
  note t = warnings_do_not_block [OF h1 h2 h3 h4, of "{''foo'', ''bar'', ''baz''}"
      "\<lparr>stDiags = [], stAttrs = Map.empty, stReads = []\<rparr>"]
  have w: "\<forall>d\<in>set (snd (LoadModule exWorld ''example'')
              @ concat (map (fileDiags exWorld) [''a.tfvars'', ''b.tfvars''])).
            Severity d = DiagWarning"
    by (simp add: ex_diags ex_fileDiags_a ex_fileDiags_b convertHCLDiag_def exWarning_def)
  from t have a: "stAttrs (varFileStep exWorld {''foo'', ''bar'', ''baz''}
        \<lparr>stDiags = [], stAttrs = Map.empty, stReads = []\<rparr> ''b.tfvars'') ''baz''
       = Some (attrOf ''baz'' ''4'')"
    by (simp add: ex_fileAttrs_b)
  from t have b: "\<forall>d\<in>set (fileDiags exWorld ''b.tfvars''). Severity d = DiagWarning"
    by blast
  from t have "\<not> versionP exFlags
          \<and> (\<forall>d\<in>set (snd (LoadModule exWorld ''example'')
                 @ concat (map (fileDiags exWorld) [''a.tfvars'', ''b.tfvars''])).
                Severity d = DiagWarning)
          \<and> (outP exFlags = ''-'' \<or> Create exWorld (outP exFlags) = None)
          \<and> WriteTo exWorld (outP exFlags)
               (map BuildTokens (pasted exWorld ''example'' [''a.tfvars'', ''b.tfvars'']))
              = None
          \<longrightarrow> status (main exWorld exFlags (''example'' # [''a.tfvars'', ''b.tfvars''])) = 0
            \<and> written (main exWorld exFlags (''example'' # [''a.tfvars'', ''b.tfvars''])) =
                Some (outP exFlags,
                  map BuildTokens (pasted exWorld ''example'' [''a.tfvars'', ''b.tfvars'']))"
    by blast
  with w ex_Create ex_WriteTo ex_flags(1)
  have c: "status (main exWorld exFlags (''example'' # [''a.tfvars'', ''b.tfvars''])) = 0
            \<and> written (main exWorld exFlags (''example'' # [''a.tfvars'', ''b.tfvars''])) =
                Some (outP exFlags,
                  map BuildTokens (pasted exWorld ''example'' [''a.tfvars'', ''b.tfvars'']))"
    by blast
  from h1 h2 h3 h4 a b c show ?thesis
    by (simp add: ex_flags ex_ab_pasted ex_fileDiags_b)
qed



end
